theory Spec2Isabelle
  imports Complex_Main
begin

section \<open>The exam portal (app.py): data model\<close>

text \<open>
  The exceptions the modelled code can raise. \<open>IndexError\<close>: \<open>[0][0]\<close> on an empty
  query result; \<open>KeyError\<close>: a column missing from an uploaded row; \<open>ValueError\<close>:
  \<open>datetime.fromisoformat\<close>, \<open>int\<close>, \<open>float\<close> or \<open>list.index\<close> rejecting its
  argument; \<open>TypeError\<close>: comparing the aware clock with a naive timestamp;
  \<open>OverflowError\<close>: a \<open>timedelta\<close> or a date out of range; \<open>ZeroDivisionError\<close>: a
  division by zero.
\<close>

datatype error =
  IndexError | KeyError | ValueError | TypeError | OverflowError | ZeroDivisionError

text \<open>
  A value read from a TEXT column: SQL NULL (Python \<open>None\<close>) or a string. No column of
  the schema is declared NOT NULL.
\<close>

type_synonym cell = "string option"

text \<open>Table \<open>users (username TEXT PRIMARY KEY, password TEXT, role TEXT, score REAL)\<close>.
  Python floats are modelled as exact reals.\<close>

record user_row =
  username :: string
  password :: string
  role :: string
  score :: real

text \<open>Table \<open>questions (id INTEGER PRIMARY KEY AUTOINCREMENT, question, opt1, opt2, opt3,
  opt4, correct_opt)\<close>; a row \<open>q\<close> of the source is indexed \<open>q[0]\<close> .. \<open>q[6]\<close>.\<close>

record question_row =
  qid :: int
  question :: cell
  opt1 :: cell
  opt2 :: cell
  opt3 :: cell
  opt4 :: cell
  correct_opt :: cell

text \<open>
  The database file: the three tables, and the \<open>sqlite_sequence\<close> entry that AUTOINCREMENT
  keeps for \<open>questions\<close> (the largest id ever handed out). Table \<open>config (key TEXT PRIMARY
  KEY, value TEXT)\<close> is a map from key to value; the application only ever stores strings
  in it.
\<close>

record db =
  users :: "user_row list"
  config :: "string \<rightharpoonup> string"
  questions :: "question_row list"
  questions_seq :: int

text \<open>
  \<open>st.session_state['user_answers']\<close>: a dict from question id to the selected option, where
  an unselected radio button stores \<open>None\<close>. The session holds the dict or lacks the key.
\<close>

type_synonym answers = "int \<rightharpoonup> cell"

text \<open>An aware or naive \<open>datetime\<close>: the wall-clock fields as microseconds since
  0001-01-01T00:00:00, and the UTC offset in microseconds when the value carries one.\<close>

record datetime =
  local_us :: int
  utcoffset :: "int option"

text \<open>
  The library functions the code calls and this repository does not define, taken as
  parameters: each returns \<open>None\<close> where the Python function raises \<open>ValueError\<close>.
  \<open>make_hashes\<close> is \<open>hashlib.sha256(...).hexdigest()\<close>.
\<close>

record pylib =
  fromisoformat :: "string \<Rightarrow> datetime option"
  int_of_str :: "string \<Rightarrow> int option"
  float_of_str :: "string \<Rightarrow> real option"
  make_hashes :: "string \<Rightarrow> string"

definition SENTINEL :: real where
  "SENTINEL = - 999"

section \<open>calculate_and_submit\<close>

text \<open>\<open>user_ans.get(qid, None)\<close>: \<open>None\<close> for a key that is absent and for a key that maps
  to \<open>None\<close>.\<close>

definition dict_get :: "answers \<Rightarrow> int \<Rightarrow> cell" where
  "dict_get user_ans k = (case user_ans k of None \<Rightarrow> None | Some v \<Rightarrow> v)"

text \<open>The loop of lines 63-71; the accumulator \<open>acc\<close> is the running \<open>score\<close>.\<close>

fun score_loop :: "bool \<Rightarrow> real \<Rightarrow> answers \<Rightarrow> question_row list \<Rightarrow> real \<Rightarrow> real" where
  "score_loop is_neg pen_val user_ans [] acc = acc"
| "score_loop is_neg pen_val user_ans (q # qs) acc =
     (let correct = correct_opt q;
          selected = dict_get user_ans (qid q)
      in if selected = correct then score_loop is_neg pen_val user_ans qs (acc + 1)
         else if selected \<noteq> None \<and> is_neg then score_loop is_neg pen_val user_ans qs (acc - pen_val)
         else score_loop is_neg pen_val user_ans qs acc)"

text \<open>Python's \<open>/\<close>, which raises on a zero divisor (in HOL \<open>x / 0 = 0\<close>).\<close>

definition py_truediv :: "real \<Rightarrow> real \<Rightarrow> error + real" where
  "py_truediv a b = (if b = 0 then Inl ZeroDivisionError else Inr (a / b))"

text \<open>Lines 60-73: \<open>final_percent = (score / total) * 100 if total > 0 else 0\<close>.\<close>

definition final_percent ::
  "bool \<Rightarrow> real \<Rightarrow> answers \<Rightarrow> question_row list \<Rightarrow> error + real" where
  "final_percent is_neg pen_val user_ans qs =
     (let total = length qs
      in if total > 0
         then (case py_truediv (score_loop is_neg pen_val user_ans qs 0) (real total) of
                 Inl e \<Rightarrow> Inl e
               | Inr r \<Rightarrow> Inr (r * 100))
         else Inr 0)"

text \<open>\<open>UPDATE users SET score=? WHERE username=?\<close>: unconditional on the stored score.\<close>

definition update_score :: "real \<Rightarrow> string \<Rightarrow> db \<Rightarrow> db" where
  "update_score v user d =
     d\<lparr>users := map (\<lambda>u. if username u = user then u\<lparr>score := v\<rparr> else u) (users d)\<rparr>"

text \<open>
  \<open>calculate_and_submit(user)\<close>, lines 50-75. \<open>float(penalty[0][0])\<close> is evaluated whenever
  the key is present, also when negative marking is off, and raises before anything is
  written. The result is the returned percentage or the exception, with the database
  after the call.
\<close>

definition calculate_and_submit ::
  "pylib \<Rightarrow> db \<Rightarrow> answers option \<Rightarrow> string \<Rightarrow> (error + real) \<times> db" where
  "calculate_and_submit L d sess user =
     (let neg_mark = config d ''neg_marking'';
          penalty = config d ''penalty'';
          is_neg = (case neg_mark of None \<Rightarrow> False | Some v \<Rightarrow> v = ''1'')
      in case (case penalty of None \<Rightarrow> Some 0 | Some s \<Rightarrow> float_of_str L s) of
           None \<Rightarrow> (Inl ValueError, d)
         | Some pen_val \<Rightarrow>
             (let user_ans = (case sess of None \<Rightarrow> Map.empty | Some a \<Rightarrow> a)
              in case final_percent is_neg pen_val user_ans (questions d) of
                   Inl e \<Rightarrow> (Inl e, d)
                 | Inr p \<Rightarrow> (Inr p, update_score p user d)))"

section \<open>page_exam\<close>

text \<open>
  The branch of \<open>page_exam\<close> an evaluation takes. \<open>SUBMITTED\<close> carries the score when
  \<open>show_result\<close> is '1' (otherwise "Results hidden."); \<open>IN_PROGRESS\<close> carries \<open>left_sec\<close>.
\<close>

datatype phase = SUBMITTED "real option" | NOT_SCHEDULED | NOT_STARTED | EXPIRED | IN_PROGRESS real

text \<open>\<open>SELECT score FROM users WHERE username=?\<close>.\<close>

definition select_score :: "db \<Rightarrow> string \<Rightarrow> real list" where
  "select_score d user = map score (filter (\<lambda>u. username u = user) (users d))"

text \<open>\<open>datetime.max\<close> is 9999-12-31T23:59:59.999999, the last microsecond of day
  3652059.\<close>

definition MAX_LOCAL_US :: int where
  "MAX_LOCAL_US = 3652059 * 86400 * 1000000"

text \<open>
  \<open>start_dt + datetime.timedelta(minutes=n)\<close>. The \<open>timedelta\<close> constructor raises
  \<open>OverflowError\<close> when the magnitude of its day count exceeds 999999999, the addition
  when the resulting wall-clock value leaves years 1 to 9999; the offset is kept.
\<close>

definition add_minutes :: "datetime \<Rightarrow> int \<Rightarrow> error + datetime" where
  "add_minutes dt n =
     (if n div 1440 < - 999999999 \<or> 999999999 < n div 1440 then Inl OverflowError
      else let l = local_us dt + n * 60000000
           in if 0 \<le> l \<and> l < MAX_LOCAL_US then Inr (dt\<lparr>local_us := l\<rparr>)
              else Inl OverflowError)"

text \<open>
  \<open>get_current_time()\<close> returns an aware \<open>datetime\<close>; the comparisons and the subtraction
  of \<open>page_exam\<close> depend on its instant only, so the clock is the integer \<open>now\<close>, in
  microseconds of UTC on the scale of \<open>local_us\<close>. Comparing it with a naive value raises
  \<open>TypeError\<close>; \<open>instant\<close> is the UTC instant of an aware value.
\<close>

definition instant :: "datetime \<Rightarrow> error + int" where
  "instant dt = (case utcoffset dt of None \<Rightarrow> Inl TypeError | Some off \<Rightarrow> Inr (local_us dt - off))"

text \<open>
  Lines 163-202 of \<open>page_exam\<close>: which branch the evaluation takes, or the exception
  raised on the way, in the order of the source: the submitted check, the schedule
  check, \<open>fromisoformat\<close>, \<open>int\<close>, \<open>timedelta\<close> and the addition, then the two
  comparisons with the clock.
\<close>

definition exam_phase :: "pylib \<Rightarrow> int \<Rightarrow> string \<Rightarrow> db \<Rightarrow> error + phase" where
  "exam_phase L now user d =
     (case select_score d user of
        [] \<Rightarrow> Inl IndexError
      | my_score # _ \<Rightarrow>
          if my_score \<noteq> - 999
          then Inr (SUBMITTED (if config d ''show_result'' = Some ''1'' then Some my_score else None))
          else (case config d ''start_time'' of
                  None \<Rightarrow> Inr NOT_SCHEDULED
                | Some start_str \<Rightarrow>
             (case config d ''duration'' of
                  None \<Rightarrow> Inr NOT_SCHEDULED
                | Some dur_str \<Rightarrow>
             (case fromisoformat L start_str of
                  None \<Rightarrow> Inl ValueError
                | Some start_dt \<Rightarrow>
             (case int_of_str L dur_str of
                  None \<Rightarrow> Inl ValueError
                | Some mins \<Rightarrow>
             (case add_minutes start_dt mins of
                  Inl e \<Rightarrow> Inl e
                | Inr end_dt \<Rightarrow>
             (case instant start_dt of
                  Inl e \<Rightarrow> Inl e
                | Inr start_i \<Rightarrow>
                    if now < start_i then Inr NOT_STARTED
                    else (case instant end_dt of
                            Inl e \<Rightarrow> Inl e
                          | Inr end_i \<Rightarrow>
                              if now > end_i then Inr EXPIRED
                              else Inr (IN_PROGRESS (real_of_int (end_i - now) / 1000000))))))))))"

text \<open>Python truthiness of a value that is \<open>None\<close> or a string.\<close>

definition truthy :: "cell \<Rightarrow> bool" where
  "truthy c = (case c of None \<Rightarrow> False | Some s \<Rightarrow> s \<noteq> [])"

text \<open>
  The loop of lines 212-219. \<open>radio\<close> gives, per widget key, what \<open>st.radio\<close> returns (the
  student's selection, \<open>None\<close> when nothing is selected). \<open>opts.index(prev)\<close> raises
  \<open>ValueError\<close> when a truthy \<open>prev\<close> is not among the four options.
\<close>

fun render_questions :: "(int \<Rightarrow> cell) \<Rightarrow> question_row list \<Rightarrow> answers \<Rightarrow> error option \<times> answers" where
  "render_questions radio [] user_ans = (None, user_ans)"
| "render_questions radio (q # qs) user_ans =
     (let opts = [opt1 q, opt2 q, opt3 q, opt4 q];
          prev = dict_get user_ans (qid q)
      in if truthy prev \<and> prev \<notin> set opts then (Some ValueError, user_ans)
         else render_questions radio qs (user_ans(qid q \<mapsto> radio (qid q))))"

text \<open>
  One evaluation of \<open>page_exam\<close> for the logged-in \<open>user\<close>: the clock, the radio
  selections and whether "Submit Final Answers" is pressed are inputs. It returns the
  branch taken (or the exception), the database and the session's \<open>user_answers\<close>
  afterwards.
\<close>

definition page_exam ::
  "pylib \<Rightarrow> int \<Rightarrow> (int \<Rightarrow> cell) \<Rightarrow> bool \<Rightarrow> string \<Rightarrow> db \<Rightarrow> answers option
    \<Rightarrow> (error + phase) \<times> db \<times> answers option" where
  "page_exam L now radio submit user d sess =
     (case exam_phase L now user d of
        Inl e \<Rightarrow> (Inl e, d, sess)
      | Inr EXPIRED \<Rightarrow>
          (case calculate_and_submit L d sess user of
             (Inl e, d') \<Rightarrow> (Inl e, d', sess)
           | (Inr p, d') \<Rightarrow> (Inr EXPIRED, d', sess))
      | Inr (IN_PROGRESS left_sec) \<Rightarrow>
          (case render_questions radio (questions d) (case sess of None \<Rightarrow> Map.empty | Some a \<Rightarrow> a) of
             (Some e, user_ans) \<Rightarrow> (Inl e, d, Some user_ans)
           | (None, user_ans) \<Rightarrow>
               if submit
               then (case calculate_and_submit L d (Some user_ans) user of
                       (Inl e, d') \<Rightarrow> (Inl e, d', Some user_ans)
                     | (Inr p, d') \<Rightarrow> (Inr (IN_PROGRESS left_sec), d', Some user_ans))
               else (Inr (IN_PROGRESS left_sec), d, Some user_ans))
      | Inr ph \<Rightarrow> (Inr ph, d, sess))"

section \<open>page_login: Create Account\<close>

text \<open>What the page shows: \<open>st.error\<close> or \<open>st.success\<close> with its text.\<close>

datatype notice = Error string | Success string

text \<open>Lines 99-105: \<open>SELECT * FROM users WHERE username=?\<close>, then the INSERT of a
  student with score -999, at the end of the table.\<close>

definition create_account :: "pylib \<Rightarrow> string \<Rightarrow> string \<Rightarrow> db \<Rightarrow> notice \<times> db" where
  "create_account L new_u new_p d =
     (if filter (\<lambda>u. username u = new_u) (users d) \<noteq> []
      then (Error ''User exists'', d)
      else (Success ''Account created! Please Login.'',
            d\<lparr>users := users d @
                 [\<lparr>username = new_u, password = make_hashes L new_p,
                   role = ''student'', score = - 999\<rparr>]\<rparr>))"

section \<open>page_admin: Save Settings and Process CSV\<close>

text \<open>Lines 137-141: five \<open>INSERT OR REPLACE INTO config\<close>. The arguments are the strings
  \<open>dt_aware.isoformat()\<close>, \<open>str(dur)\<close>, \<open>str(pen_amt)\<close> and the two checkboxes.\<close>

definition save_settings :: "string \<Rightarrow> string \<Rightarrow> bool \<Rightarrow> string \<Rightarrow> bool \<Rightarrow> db \<Rightarrow> db" where
  "save_settings start_iso dur_s ena_neg pen_s show_res d =
     d\<lparr>config := (config d)
          (''start_time'' \<mapsto> start_iso,
           ''duration'' \<mapsto> dur_s,
           ''neg_marking'' \<mapsto> (if ena_neg then ''1'' else ''0''),
           ''penalty'' \<mapsto> pen_s,
           ''show_result'' \<mapsto> (if show_res then ''1'' else ''0''))\<rparr>"

text \<open>
  A row of the uploaded data frame: column name to the value SQLite stores for it
  (a blank cell is NaN in pandas and is bound as NULL). \<open>row['c']\<close> raises \<open>KeyError\<close>
  for a column the file does not have.
\<close>

type_synonym csv_row = "string \<rightharpoonup> cell"

text \<open>
  \<open>INSERT INTO questions (question, opt1, ..., correct_opt) VALUES (...)\<close>: AUTOINCREMENT
  gives the row an id one larger than every id in the table and than the recorded
  sequence value, and records it.
\<close>

definition insert_question :: "cell \<Rightarrow> cell \<Rightarrow> cell \<Rightarrow> cell \<Rightarrow> cell \<Rightarrow> cell \<Rightarrow> db \<Rightarrow> db" where
  "insert_question qu o1 o2 o3 o4 co d =
     (let i = fold max (map qid (questions d)) (questions_seq d) + 1
      in d\<lparr>questions := questions d @
              [\<lparr>qid = i, question = qu, opt1 = o1, opt2 = o2, opt3 = o3, opt4 = o4,
                correct_opt = co\<rparr>],
           questions_seq := i\<rparr>)"

text \<open>The loop of lines 149-151; every \<open>run_query\<close> commits on its own, so an exception
  leaves the rows inserted before it.\<close>

fun insert_rows :: "csv_row list \<Rightarrow> db \<Rightarrow> error option \<times> db" where
  "insert_rows [] d = (None, d)"
| "insert_rows (row # rows) d =
     (case (row ''question'', row ''opt1'', row ''opt2'', row ''opt3'', row ''opt4'',
            row ''correct_opt'') of
        (Some qu, Some o1, Some o2, Some o3, Some o4, Some co) \<Rightarrow>
          insert_rows rows (insert_question qu o1 o2 o3 o4 co d)
      | _ \<Rightarrow> (Some KeyError, d))"

text \<open>Lines 148-151, on the data frame \<open>pd.read_csv\<close> returned: \<open>DELETE FROM questions\<close>,
  committed, then the inserts.\<close>

definition process_csv :: "csv_row list \<Rightarrow> db \<Rightarrow> error option \<times> db" where
  "process_csv df d = insert_rows df (d\<lparr>questions := []\<rparr>)"

section \<open>Sequences of requests\<close>

text \<open>
  The requests that write to the database, each a whole script run: "Create Account",
  an evaluation of \<open>page_exam\<close> by some session, "Save Settings" and "Process CSV".
\<close>

datatype request =
    Create_Account string string
  | Exam_Page string int "int \<Rightarrow> cell" bool "answers option"
  | Save_Settings string string bool string bool
  | Process_CSV "csv_row list"

fun request_step :: "pylib \<Rightarrow> request \<Rightarrow> db \<Rightarrow> db" where
  "request_step L (Create_Account new_u new_p) d = snd (create_account L new_u new_p d)"
| "request_step L (Exam_Page user now radio submit sess) d =
     fst (snd (page_exam L now radio submit user d sess))"
| "request_step L (Save_Settings start_iso dur_s ena_neg pen_s show_res) d =
     save_settings start_iso dur_s ena_neg pen_s show_res d"
| "request_step L (Process_CSV df) d = snd (process_csv df d)"

definition run_requests :: "pylib \<Rightarrow> request list \<Rightarrow> db \<Rightarrow> db" where
  "run_requests L reqs d = fold (request_step L) reqs d"

section \<open>Sample data\<close>

text \<open>
  The library functions at the strings the examples use: the timestamp is 10:00 IST on
  1 January 2024 (day 738886 of the calendar), \<open>int('30')\<close> is 30 and \<open>float('0.25')\<close>
  is 0.25; \<open>int('half an hour')\<close> raises \<open>ValueError\<close>. The hash is a stand-in.
\<close>

definition lib_sample :: pylib where
  "lib_sample =
     \<lparr>fromisoformat = (\<lambda>s. if s = ''2024-01-01T10:00:00+05:30''
                             then Some \<lparr>local_us = 63839700000000000, utcoffset = Some 19800000000\<rparr>
                             else None),
      int_of_str = (\<lambda>s. if s = ''30'' then Some 30 else None),
      float_of_str = (\<lambda>s. if s = ''0.25'' then Some 0.25 else None),
      make_hashes = (\<lambda>p. ''#'' @ p)\<rparr>"

text \<open>The instants of 10:00 IST and 10:30 IST on that day.\<close>

definition start_sample :: int where
  "start_sample = 63839680200000000"

definition end_sample :: int where
  "end_sample = 63839682000000000"

definition q1 :: question_row where
  "q1 = \<lparr>qid = 1, question = Some ''Q1'', opt1 = Some ''A'', opt2 = Some ''B'',
          opt3 = Some ''C'', opt4 = Some ''D'', correct_opt = Some ''A''\<rparr>"

definition q2 :: question_row where
  "q2 = \<lparr>qid = 2, question = Some ''Q2'', opt1 = Some ''A'', opt2 = Some ''B'',
          opt3 = Some ''C'', opt4 = Some ''D'', correct_opt = Some ''B''\<rparr>"

text \<open>A question whose \<open>correct_opt\<close> cell was blank in the uploaded file.\<close>

definition q_blank :: question_row where
  "q_blank = \<lparr>qid = 1, question = Some ''Q1'', opt1 = Some ''A'', opt2 = Some ''B'',
               opt3 = Some ''C'', opt4 = Some ''D'', correct_opt = None\<rparr>"

definition users_sample :: "user_row list" where
  "users_sample =
     [\<lparr>username = ''admin'', password = ''#admin123'', role = ''admin'', score = 0\<rparr>,
      \<lparr>username = ''alice'', password = ''#a'', role = ''student'', score = - 999\<rparr>,
      \<lparr>username = ''bob'', password = ''#b'', role = ''student'', score = 50\<rparr>]"

definition config_sample :: "string \<rightharpoonup> string" where
  "config_sample =
     [''start_time'' \<mapsto> ''2024-01-01T10:00:00+05:30'',
      ''duration'' \<mapsto> ''30'',
      ''neg_marking'' \<mapsto> ''1'',
      ''penalty'' \<mapsto> ''0.25'',
      ''show_result'' \<mapsto> ''1'']"

definition db_sample :: db where
  "db_sample = \<lparr>users = users_sample, config = config_sample, questions = [q1, q2],
                 questions_seq = 2\<rparr>"

text \<open>No radio button selected; a database without a schedule; one whose duration is
  not a number.\<close>

definition radio_none :: "int \<Rightarrow> cell" where
  "radio_none = (\<lambda>k. None)"

definition db_unscheduled :: db where
  "db_unscheduled = db_sample\<lparr>config := Map.empty\<rparr>"

definition db_malformed :: db where
  "db_malformed = db_sample\<lparr>config := config_sample(''duration'' \<mapsto> ''half an hour'')\<rparr>"

text \<open>A later account; an uploaded file of one question, and the same file without its
  \<open>correct_opt\<close> column; the question the upload stores; a sequence of requests.\<close>

definition db_carol :: db where
  "db_carol = db_sample\<lparr>users := users_sample @
     [\<lparr>username = ''carol'', password = ''#pw'', role = ''student'', score = - 999\<rparr>]\<rparr>"

definition df_sample :: "csv_row list" where
  "df_sample =
     [[''question'' \<mapsto> Some ''Q3'', ''opt1'' \<mapsto> Some ''A'', ''opt2'' \<mapsto> Some ''B'',
       ''opt3'' \<mapsto> Some ''C'', ''opt4'' \<mapsto> Some ''D'', ''correct_opt'' \<mapsto> Some ''C'']]"

definition df_no_correct :: "csv_row list" where
  "df_no_correct =
     [[''question'' \<mapsto> Some ''Q3'', ''opt1'' \<mapsto> Some ''A'', ''opt2'' \<mapsto> Some ''B'',
       ''opt3'' \<mapsto> Some ''C'', ''opt4'' \<mapsto> Some ''D'']]"

definition q3 :: question_row where
  "q3 = \<lparr>qid = 3, question = Some ''Q3'', opt1 = Some ''A'', opt2 = Some ''B'',
          opt3 = Some ''C'', opt4 = Some ''D'', correct_opt = Some ''C''\<rparr>"

definition reqs_sample :: "request list" where
  "reqs_sample =
     [Exam_Page ''bob'' (end_sample + 1) radio_none True None,
      Exam_Page ''alice'' (end_sample + 1) radio_none False None,
      Create_Account ''bob'' ''pw'',
      Save_Settings ''2024-01-01T10:00:00+05:30'' ''30'' False ''0.25'' True,
      Process_CSV [],
      Exam_Page ''bob'' start_sample radio_none True (Some [1 \<mapsto> Some ''A''])]"

section \<open>Predicates on the question bank\<close>

text \<open>A stored question holds the six values of an uploaded row.\<close>

definition row_matches :: "question_row \<Rightarrow> csv_row \<Rightarrow> bool" where
  "row_matches q row =
     (row ''question'' = Some (question q) \<and> row ''opt1'' = Some (opt1 q)
      \<and> row ''opt2'' = Some (opt2 q) \<and> row ''opt3'' = Some (opt3 q)
      \<and> row ''opt4'' = Some (opt4 q) \<and> row ''correct_opt'' = Some (correct_opt q))"

text \<open>What AUTOINCREMENT maintains: no id in the table exceeds the recorded sequence
  value.\<close>

definition ids_recorded :: "db \<Rightarrow> bool" where
  "ids_recorded d = list_all (\<lambda>q. qid q \<le> questions_seq d) (questions d)"

section \<open>The scoring rule in the specification's words\<close>

text \<open>
  The award of one question as the specification gives it: +1 for the correct option,
  0 for an unanswered question, and for a wrong answer 0 or minus the penalty.
\<close>

definition award_spec :: "bool \<Rightarrow> real \<Rightarrow> answers \<Rightarrow> question_row \<Rightarrow> real" where
  "award_spec is_neg pen_val user_ans q =
     (case dict_get user_ans (qid q) of
        None \<Rightarrow> 0
      | Some a \<Rightarrow> if Some a = correct_opt q then 1 else if is_neg then - pen_val else 0)"

definition score_spec :: "bool \<Rightarrow> real \<Rightarrow> answers \<Rightarrow> question_row list \<Rightarrow> real" where
  "score_spec is_neg pen_val user_ans qs =
     (if qs = [] then 0
      else (\<Sum>q\<leftarrow>qs. award_spec is_neg pen_val user_ans q) / real (length qs) * 100)"

section \<open>Scoring\<close>

text \<open>
  On a bank in which every question has a correct option, the loop adds up the awards of
  the specification, and \<open>final_percent\<close> is the specification's percentage.
\<close>

lemma score_loop_award:
  "\<forall>q \<in> set qs. correct_opt q \<noteq> None \<Longrightarrow>
   score_loop is_neg pen_val user_ans qs acc
     = acc + (\<Sum>q\<leftarrow>qs. award_spec is_neg pen_val user_ans q)"
proof (induction qs arbitrary: acc)
  case Nil
  show ?case by simp
next
  case (Cons q qs)
  then show ?case
    by (auto simp: Let_def award_spec_def split: option.splits)
qed

lemma final_percent_spec:
  assumes "\<forall>q \<in> set qs. correct_opt q \<noteq> None"
  shows "final_percent is_neg pen_val user_ans qs = Inr (score_spec is_neg pen_val user_ans qs)"
  using score_loop_award[OF assms, of is_neg pen_val user_ans 0]
  by (cases qs) (simp_all add: final_percent_def py_truediv_def score_spec_def Let_def)

text \<open>The two worked examples of the specification (P4 and P5), on the code.\<close>

lemma final_percent_P4:
  "final_percent True 0.25 [1 \<mapsto> Some ''A'', 2 \<mapsto> Some ''C''] [q1, q2] = Inr 37.5"
  by (simp add: final_percent_def py_truediv_def Let_def q1_def q2_def dict_get_def)

lemma final_percent_P5:
  "final_percent True 0.25 [1 \<mapsto> Some ''A''] [q1, q2] = Inr 50"
  by (simp add: final_percent_def py_truediv_def Let_def q1_def q2_def dict_get_def)

text \<open>
  C2. The specification awards 0 to an unanswered question. The code compares
  \<open>selected == correct\<close> before it asks whether anything was selected, so a question whose
  \<open>correct_opt\<close> is NULL and that the student left unanswered (\<open>None == None\<close>) is awarded
  +1: with that single question in the bank, a student who answers nothing scores 100,
  with or without negative marking, where the specification's rule gives 0. The same
  happens through \<open>page_exam\<close> when the window has expired for a student who never opened
  the exam.
\<close>

theorem unanswered_blank_correct_awarded:
  "final_percent is_neg pen_val Map.empty [q_blank] = Inr 100
   \<and> final_percent is_neg pen_val [1 \<mapsto> None] [q_blank] = Inr 100
   \<and> score_spec is_neg pen_val Map.empty [q_blank] = 0
   \<and> fst (calculate_and_submit lib_sample (db_sample\<lparr>questions := [q_blank]\<rparr>) None ''alice'')
       = Inr 100"
  by (simp add: final_percent_def py_truediv_def Let_def q_blank_def dict_get_def
      score_spec_def award_spec_def calculate_and_submit_def lib_sample_def db_sample_def
      config_sample_def)

text \<open>
  C5. On an empty question bank the scoring computation returns 0 for every answer map,
  flag and penalty, without dividing; and \<open>calculate_and_submit\<close> on an empty bank returns
  and stores 0 whenever the configured penalty, if there is one, is a number.
\<close>

theorem empty_bank_scores_zero:
  assumes "questions d = []"
    and "\<forall>s. config d ''penalty'' = Some s \<longrightarrow> float_of_str L s \<noteq> None"
  shows "final_percent is_neg pen_val user_ans (questions d) = Inr 0
         \<and> calculate_and_submit L d sess user = (Inr 0, update_score 0 user d)"
  using assms
  by (auto simp: final_percent_def calculate_and_submit_def Let_def split: option.splits)

theorem empty_bank_scores_zero_witness:
  "questions (db_sample\<lparr>questions := []\<rparr>) = []
   \<and> config (db_sample\<lparr>questions := []\<rparr>) ''penalty'' = Some ''0.25''
   \<and> float_of_str lib_sample ''0.25'' = Some 0.25
   \<and> final_percent True 0.25 [1 \<mapsto> Some ''B''] (questions (db_sample\<lparr>questions := []\<rparr>)) = Inr 0
   \<and> calculate_and_submit lib_sample (db_sample\<lparr>questions := []\<rparr>) None ''alice''
       = (Inr 0, update_score 0 ''alice'' (db_sample\<lparr>questions := []\<rparr>))"
proof -
  have a: "questions (db_sample\<lparr>questions := []\<rparr>) = []"
    by simp
  have b: "config (db_sample\<lparr>questions := []\<rparr>) ''penalty'' = Some ''0.25''"
    by (simp add: db_sample_def config_sample_def)
  have c: "float_of_str lib_sample ''0.25'' = Some 0.25"
    by (simp add: lib_sample_def)
  have h: "\<forall>s. config (db_sample\<lparr>questions := []\<rparr>) ''penalty'' = Some s
             \<longrightarrow> float_of_str lib_sample s \<noteq> None"
  proof (intro allI impI)
    fix s
    assume "config (db_sample\<lparr>questions := []\<rparr>) ''penalty'' = Some s"
    with b have "s = ''0.25''" by simp
    with c show "float_of_str lib_sample s \<noteq> None" by simp
  qed
  from empty_bank_scores_zero[OF a h] a b c
  show ?thesis by blast
qed

text \<open>
  C6. The percentage is not clamped at 0: with negative marking on, penalty 0.25 and both
  questions answered wrongly, the computation gives -25, and \<open>calculate_and_submit\<close>
  returns -25 and stores it as the student's score.
\<close>

theorem negative_score_not_clamped:
  "final_percent True 0.25 [1 \<mapsto> Some ''B'', 2 \<mapsto> Some ''A''] [q1, q2] = Inr (- 25)
   \<and> calculate_and_submit lib_sample db_sample (Some [1 \<mapsto> Some ''B'', 2 \<mapsto> Some ''A'']) ''alice''
       = (Inr (- 25), update_score (- 25) ''alice'' db_sample)
   \<and> select_score (update_score (- 25) ''alice'' db_sample) ''alice'' = [- 25]"
  by (simp add: calculate_and_submit_def lib_sample_def db_sample_def config_sample_def
      final_percent_def py_truediv_def Let_def q1_def q2_def dict_get_def select_score_def
      update_score_def users_sample_def)

section \<open>Session phases\<close>

lemma add_minutes_Inr:
  assumes "add_minutes dt n = Inr e"
  shows "local_us e = local_us dt + n * 60000000 \<and> utcoffset e = utcoffset dt"
  using assms by (auto simp: add_minutes_def Let_def split: if_splits)

lemma instant_add_minutes:
  assumes "add_minutes dt n = Inr e" and "instant dt = Inr i"
  shows "instant e = Inr (i + n * 60000000)"
  using add_minutes_Inr[OF assms(1)] assms(2)
  by (auto simp: instant_def split: option.splits)

lemma exam_phase_submitted:
  assumes "select_score d user = my_score # rest" and "my_score \<noteq> SENTINEL"
  shows "exam_phase L now user d
    = Inr (SUBMITTED (if config d ''show_result'' = Some ''1'' then Some my_score else None))"
  using assms by (simp add: exam_phase_def SENTINEL_def)

lemma exam_phase_not_scheduled:
  assumes "select_score d user = SENTINEL # rest"
    and "config d ''start_time'' = None \<or> config d ''duration'' = None"
  shows "exam_phase L now user d = Inr NOT_SCHEDULED"
  using assms by (auto simp: exam_phase_def SENTINEL_def split: option.splits)

lemma exam_phase_scheduled:
  assumes "select_score d user = SENTINEL # rest"
    and "config d ''start_time'' = Some ss" and "config d ''duration'' = Some ds"
    and "fromisoformat L ss = Some start_dt" and "int_of_str L ds = Some mins"
    and "add_minutes start_dt mins = Inr end_dt"
    and "instant start_dt = Inr start_i"
  shows "exam_phase L now user d =
     (if now < start_i then Inr NOT_STARTED
      else if now > start_i + mins * 60000000 then Inr EXPIRED
      else Inr (IN_PROGRESS (real_of_int (start_i + mins * 60000000 - now) / 1000000)))"
  using assms instant_add_minutes[OF assms(6,7)]
  by (simp add: exam_phase_def SENTINEL_def)

lemma exam_phase_malformed:
  assumes "select_score d user = SENTINEL # rest"
    and "config d ''start_time'' = Some ss" and "config d ''duration'' = Some ds"
    and "fromisoformat L ss = None \<or> int_of_str L ds = None"
  shows "exam_phase L now user d = Inl ValueError"
  using assms by (auto simp: exam_phase_def SENTINEL_def split: option.splits)


lemma select_score_update_score:
  "select_score (update_score p user d) user = map (\<lambda>x. p) (select_score d user)"
  by (simp add: select_score_def update_score_def filter_map comp_def)


lemma select_score_update_other:
  assumes "v \<noteq> user"
  shows "select_score (update_score p v d) user = select_score d user"
proof -
  have "map score (filter (\<lambda>u. username u = user)
          (map (\<lambda>u. if username u = v then u\<lparr>score := p\<rparr> else u) us))
        = map score (filter (\<lambda>u. username u = user) us)" for us
    using assms by (induction us) auto
  then show ?thesis
    by (simp add: select_score_def update_score_def)
qed

lemma final_percent_total: "\<exists>p. final_percent is_neg pen_val user_ans qs = Inr p"
  by (simp add: final_percent_def py_truediv_def Let_def)

lemma page_exam_expired:
  assumes "exam_phase L now user d = Inr EXPIRED"
    and "(case config d ''penalty'' of None \<Rightarrow> Some 0 | Some s \<Rightarrow> float_of_str L s) = Some pen"
  shows "\<exists>p. final_percent (config d ''neg_marking'' = Some ''1'') pen
               (case sess of None \<Rightarrow> Map.empty | Some a \<Rightarrow> a) (questions d) = Inr p
             \<and> page_exam L now radio submit user d sess = (Inr EXPIRED, update_score p user d, sess)"
proof -
  have n: "(case config d ''neg_marking'' of None \<Rightarrow> False | Some v \<Rightarrow> v = ''1'')
            = (config d ''neg_marking'' = Some ''1'')"
    by (simp split: option.splits)
  obtain p where p: "final_percent (config d ''neg_marking'' = Some ''1'') pen
               (case sess of None \<Rightarrow> Map.empty | Some a \<Rightarrow> a) (questions d) = Inr p"
    using final_percent_total by blast
  have "calculate_and_submit L d sess user = (Inr p, update_score p user d)"
    using assms(2) p unfolding calculate_and_submit_def Let_def n by simp
  then show ?thesis
    using assms(1) p by (simp add: page_exam_def)
qed

text \<open>
  C3. The order of the checks of \<open>page_exam\<close>, for a user with a row in \<open>users\<close>: a stored
  score other than the sentinel gives \<open>SUBMITTED\<close> whatever the configuration; otherwise a
  missing \<open>start_time\<close> or \<open>duration\<close> gives \<open>NOT_SCHEDULED\<close>; otherwise, when both values
  parse and the end of the window \<open>start_time + duration\<close> minutes can be computed, a clock
  before the start gives \<open>NOT_STARTED\<close>, a clock after the end gives \<open>EXPIRED\<close>, where
  \<open>page_exam\<close> scores the answers the session holds (none when it holds no answers) and
  stores the result as the user's score whenever the configured penalty is a number, and
  any other clock gives \<open>IN_PROGRESS\<close> with the seconds from the clock to the end.
\<close>

theorem phase_precedence:
  assumes "select_score d user = my_score # rest"
  shows
    "(my_score \<noteq> SENTINEL \<longrightarrow>
        exam_phase L now user d
          = Inr (SUBMITTED (if config d ''show_result'' = Some ''1'' then Some my_score else None)))
     \<and> (my_score = SENTINEL \<longrightarrow>
          ((config d ''start_time'' = None \<or> config d ''duration'' = None) \<longrightarrow>
              exam_phase L now user d = Inr NOT_SCHEDULED)
          \<and> (\<forall>ss ds start_dt mins end_dt start_i.
                config d ''start_time'' = Some ss \<and> config d ''duration'' = Some ds
                \<and> fromisoformat L ss = Some start_dt \<and> int_of_str L ds = Some mins
                \<and> add_minutes start_dt mins = Inr end_dt \<and> instant start_dt = Inr start_i \<longrightarrow>
                instant end_dt = Inr (start_i + mins * 60000000)
                \<and> (now < start_i \<longrightarrow> exam_phase L now user d = Inr NOT_STARTED)
                \<and> (start_i \<le> now \<and> start_i + mins * 60000000 < now \<longrightarrow>
                      exam_phase L now user d = Inr EXPIRED
                      \<and> (\<forall>pen. (case config d ''penalty'' of None \<Rightarrow> Some 0
                                  | Some s \<Rightarrow> float_of_str L s) = Some pen \<longrightarrow>
                            (\<exists>p. final_percent (config d ''neg_marking'' = Some ''1'') pen
                                    (case sess of None \<Rightarrow> Map.empty | Some a \<Rightarrow> a)
                                    (questions d) = Inr p
                                 \<and> page_exam L now radio submit user d sess
                                     = (Inr EXPIRED, update_score p user d, sess)
                                 \<and> select_score (update_score p user d) user
                                     = p # map (\<lambda>x. p) rest)))
                \<and> (start_i \<le> now \<and> now \<le> start_i + mins * 60000000 \<longrightarrow>
                      exam_phase L now user d
                        = Inr (IN_PROGRESS
                                 (real_of_int (start_i + mins * 60000000 - now) / 1000000)))))"
proof (intro conjI impI allI)
  assume "my_score \<noteq> SENTINEL"
  then show "exam_phase L now user d
          = Inr (SUBMITTED (if config d ''show_result'' = Some ''1'' then Some my_score else None))"
    using assms by (rule exam_phase_submitted[rotated])
next
  assume "my_score = SENTINEL" "config d ''start_time'' = None \<or> config d ''duration'' = None"
  then show "exam_phase L now user d = Inr NOT_SCHEDULED"
    using assms exam_phase_not_scheduled by simp
next
  fix ss ds start_dt mins end_dt start_i
  assume s: "my_score = SENTINEL"
    and c: "config d ''start_time'' = Some ss \<and> config d ''duration'' = Some ds
            \<and> fromisoformat L ss = Some start_dt \<and> int_of_str L ds = Some mins
            \<and> add_minutes start_dt mins = Inr end_dt \<and> instant start_dt = Inr start_i"
  have row: "select_score d user = SENTINEL # rest"
    using assms s by simp
  note ph = exam_phase_scheduled[OF row, of ss ds L start_dt mins end_dt start_i now]
  show "instant end_dt = Inr (start_i + mins * 60000000)"
    using c instant_add_minutes by blast
  {
    assume "now < start_i"
    then show "exam_phase L now user d = Inr NOT_STARTED"
      using ph c by simp
  }
  {
    assume t: "start_i \<le> now \<and> start_i + mins * 60000000 < now"
    then show e: "exam_phase L now user d = Inr EXPIRED"
      using ph c by simp
    fix pen
    assume "(case config d ''penalty'' of None \<Rightarrow> Some 0 | Some s \<Rightarrow> float_of_str L s) = Some pen"
    from page_exam_expired[OF e this, of sess radio submit]
    show "\<exists>p. final_percent (config d ''neg_marking'' = Some ''1'') pen
                 (case sess of None \<Rightarrow> Map.empty | Some a \<Rightarrow> a) (questions d) = Inr p
              \<and> page_exam L now radio submit user d sess
                  = (Inr EXPIRED, update_score p user d, sess)
              \<and> select_score (update_score p user d) user = p # map (\<lambda>x. p) rest"
      using row by (auto simp: select_score_update_score)
  }
  {
    assume "start_i \<le> now \<and> now \<le> start_i + mins * 60000000"
    then show "exam_phase L now user d
        = Inr (IN_PROGRESS (real_of_int (start_i + mins * 60000000 - now) / 1000000))"
      using ph c by simp
  }
qed

lemma sample_alice: "select_score db_sample ''alice'' = SENTINEL # []"
  by (simp add: select_score_def db_sample_def users_sample_def SENTINEL_def)

lemma sample_bob: "select_score db_sample ''bob'' = 50 # []"
  by (simp add: select_score_def db_sample_def users_sample_def)

lemma sample_schedule:
  "config db_sample ''start_time'' = Some ''2024-01-01T10:00:00+05:30''
   \<and> config db_sample ''duration'' = Some ''30''
   \<and> fromisoformat lib_sample ''2024-01-01T10:00:00+05:30''
       = Some \<lparr>local_us = 63839700000000000, utcoffset = Some 19800000000\<rparr>
   \<and> int_of_str lib_sample ''30'' = Some 30
   \<and> add_minutes \<lparr>local_us = 63839700000000000, utcoffset = Some 19800000000\<rparr> 30
       = Inr \<lparr>local_us = 63839701800000000, utcoffset = Some 19800000000\<rparr>
   \<and> instant \<lparr>local_us = 63839700000000000, utcoffset = Some 19800000000\<rparr> = Inr start_sample"
  by (simp add: db_sample_def config_sample_def lib_sample_def add_minutes_def MAX_LOCAL_US_def
      instant_def start_sample_def Let_def)

theorem phase_precedence_witness:
  "select_score db_sample ''bob'' = [50]
   \<and> exam_phase lib_sample start_sample ''bob'' db_sample = Inr (SUBMITTED (Some 50))
   \<and> select_score db_sample ''alice'' = [SENTINEL]
   \<and> exam_phase lib_sample start_sample ''alice'' db_unscheduled = Inr NOT_SCHEDULED
   \<and> exam_phase lib_sample (start_sample - 1) ''alice'' db_sample = Inr NOT_STARTED
   \<and> exam_phase lib_sample (end_sample + 1) ''alice'' db_sample = Inr EXPIRED
   \<and> page_exam lib_sample (end_sample + 1) radio_none False ''alice'' db_sample None
       = (Inr EXPIRED, update_score 0 ''alice'' db_sample, None)
   \<and> exam_phase lib_sample (start_sample + 60000000) ''alice'' db_sample = Inr (IN_PROGRESS 1740)"
proof -
  have bob: "exam_phase lib_sample start_sample ''bob'' db_sample = Inr (SUBMITTED (Some 50))"
    using phase_precedence[OF sample_bob, where L = lib_sample and now = start_sample]
    by (simp add: SENTINEL_def db_sample_def config_sample_def)
  have ua: "select_score db_unscheduled ''alice'' = SENTINEL # []"
    using sample_alice by (simp add: db_unscheduled_def select_score_def)
  have unsched: "exam_phase lib_sample start_sample ''alice'' db_unscheduled = Inr NOT_SCHEDULED"
    using phase_precedence[OF ua, where L = lib_sample and now = start_sample]
    by (simp add: db_unscheduled_def)
  have before: "exam_phase lib_sample (start_sample - 1) ''alice'' db_sample = Inr NOT_STARTED"
    using phase_precedence[OF sample_alice, where L = lib_sample and now = "start_sample - 1"]
      sample_schedule by (simp add: start_sample_def)
  have during: "exam_phase lib_sample (start_sample + 60000000) ''alice'' db_sample
      = Inr (IN_PROGRESS 1740)"
    using phase_precedence[OF sample_alice, where L = lib_sample
        and now = "start_sample + 60000000"]
      sample_schedule by (simp add: start_sample_def)
  have pen: "(case config db_sample ''penalty'' of None \<Rightarrow> Some 0
              | Some s \<Rightarrow> float_of_str lib_sample s) = Some 0.25"
    by (simp add: db_sample_def config_sample_def lib_sample_def)
  have fp: "final_percent (config db_sample ''neg_marking'' = Some ''1'') 0.25
              (case None of None \<Rightarrow> Map.empty | Some a \<Rightarrow> a) (questions db_sample) = Inr 0"
    by (simp add: final_percent_def py_truediv_def Let_def db_sample_def q1_def q2_def
        dict_get_def)
  have late: "start_sample \<le> end_sample + 1 \<and> start_sample + 30 * 60000000 < end_sample + 1"
    by (simp add: start_sample_def end_sample_def)
  note P = phase_precedence[OF sample_alice, where L = lib_sample and now = "end_sample + 1"
      and sess = None and radio = radio_none and submit = False]
  note Q = P[THEN conjunct2, THEN mp, OF refl, THEN conjunct2, rule_format, OF sample_schedule]
  note E = Q[THEN conjunct2, THEN conjunct2, THEN conjunct1, THEN mp, OF late]
  have after: "exam_phase lib_sample (end_sample + 1) ''alice'' db_sample = Inr EXPIRED"
    using E by (rule conjunct1)
  from E[THEN conjunct2, rule_format, OF pen]
  obtain p where p1: "final_percent (config db_sample ''neg_marking'' = Some ''1'') 0.25
               (case None of None \<Rightarrow> Map.empty | Some a \<Rightarrow> a) (questions db_sample) = Inr p"
    and p2: "page_exam lib_sample (end_sample + 1) radio_none False ''alice'' db_sample None
               = (Inr EXPIRED, update_score p ''alice'' db_sample, None)"
    by blast
  from p1 fp have "p = 0" by simp
  with p2 have auto_submit:
    "page_exam lib_sample (end_sample + 1) radio_none False ''alice'' db_sample None
       = (Inr EXPIRED, update_score 0 ''alice'' db_sample, None)"
    by simp
  show ?thesis
    using bob unsched before during after auto_submit sample_alice sample_bob by simp
qed

lemma page_exam_passive:
  assumes "exam_phase L now user d = r"
    and "r = Inl e \<or> r = Inr NOT_SCHEDULED \<or> r = Inr NOT_STARTED \<or> r = Inr (SUBMITTED x)"
  shows "page_exam L now radio submit user d sess = (r, d, sess)"
  using assms by (auto simp: page_exam_def)

text \<open>
  C4, as the code has it. For a student who has not submitted, a missing \<open>start_time\<close> or
  \<open>duration\<close> gives \<open>NOT_SCHEDULED\<close>, with nothing raised and nothing written. A value that
  is present and that \<open>fromisoformat\<close> or \<open>int\<close> rejects is not caught: the evaluation
  raises \<open>ValueError\<close>.
\<close>

theorem missing_schedule_not_scheduled:
  assumes "select_score d user = SENTINEL # rest"
  shows
    "((config d ''start_time'' = None \<or> config d ''duration'' = None) \<longrightarrow>
        page_exam L now radio submit user d sess = (Inr NOT_SCHEDULED, d, sess))
     \<and> (\<forall>ss ds. config d ''start_time'' = Some ss \<and> config d ''duration'' = Some ds
            \<and> (fromisoformat L ss = None \<or> int_of_str L ds = None) \<longrightarrow>
          page_exam L now radio submit user d sess = (Inl ValueError, d, sess))"
proof (intro conjI impI allI)
  assume "config d ''start_time'' = None \<or> config d ''duration'' = None"
  from exam_phase_not_scheduled[OF assms this]
  show "page_exam L now radio submit user d sess = (Inr NOT_SCHEDULED, d, sess)"
    by (simp add: page_exam_def)
next
  fix ss ds
  assume "config d ''start_time'' = Some ss \<and> config d ''duration'' = Some ds
            \<and> (fromisoformat L ss = None \<or> int_of_str L ds = None)"
  then have "exam_phase L now user d = Inl ValueError"
    using exam_phase_malformed[OF assms] by blast
  then show "page_exam L now radio submit user d sess = (Inl ValueError, d, sess)"
    by (simp add: page_exam_def)
qed

lemma malformed_alice: "select_score db_malformed ''alice'' = SENTINEL # []"
  using sample_alice by (simp add: db_malformed_def select_score_def)

theorem missing_schedule_not_scheduled_witness:
  "select_score db_unscheduled ''alice'' = [SENTINEL]
   \<and> config db_unscheduled ''start_time'' = None
   \<and> page_exam lib_sample start_sample radio_none True ''alice'' db_unscheduled None
       = (Inr NOT_SCHEDULED, db_unscheduled, None)
   \<and> select_score db_malformed ''alice'' = [SENTINEL]
   \<and> config db_malformed ''start_time'' = Some ''2024-01-01T10:00:00+05:30''
   \<and> config db_malformed ''duration'' = Some ''half an hour''
   \<and> int_of_str lib_sample ''half an hour'' = None
   \<and> page_exam lib_sample start_sample radio_none True ''alice'' db_malformed None
       = (Inl ValueError, db_malformed, None)"
proof -
  have ua: "select_score db_unscheduled ''alice'' = SENTINEL # []"
    using sample_alice by (simp add: db_unscheduled_def select_score_def)
  have c0: "config db_unscheduled ''start_time'' = None"
    by (simp add: db_unscheduled_def)
  have c1: "config db_malformed ''start_time'' = Some ''2024-01-01T10:00:00+05:30''
            \<and> config db_malformed ''duration'' = Some ''half an hour''
            \<and> (fromisoformat lib_sample ''2024-01-01T10:00:00+05:30'' = None
                \<or> int_of_str lib_sample ''half an hour'' = None)"
    by (simp add: db_malformed_def config_sample_def lib_sample_def)
  note A = missing_schedule_not_scheduled[OF ua, where L = lib_sample and now = start_sample
      and radio = radio_none and submit = True and sess = None]
  note B = missing_schedule_not_scheduled[OF malformed_alice, where L = lib_sample
      and now = start_sample and radio = radio_none and submit = True and sess = None]
  have a: "page_exam lib_sample start_sample radio_none True ''alice'' db_unscheduled None
       = (Inr NOT_SCHEDULED, db_unscheduled, None)"
    using A[THEN conjunct1, THEN mp, OF disjI1, OF c0] .
  have b: "page_exam lib_sample start_sample radio_none True ''alice'' db_malformed None
       = (Inl ValueError, db_malformed, None)"
    using B[THEN conjunct2, rule_format, OF c1] .
  have n: "int_of_str lib_sample ''half an hour'' = None"
    by (simp add: lib_sample_def)
  show ?thesis
    using a b c0 c1 n ua malformed_alice by simp
qed

text \<open>
  C4 as stated fails: with the duration \<open>'half an hour'\<close> stored, the evaluation for a
  student who has not submitted raises \<open>ValueError\<close> instead of reporting \<open>NOT_SCHEDULED\<close>.
\<close>

theorem malformed_duration_raises:
  "select_score db_malformed ''alice'' = [SENTINEL]
   \<and> config db_malformed ''start_time'' = Some ''2024-01-01T10:00:00+05:30''
   \<and> config db_malformed ''duration'' = Some ''half an hour''
   \<and> exam_phase lib_sample start_sample ''alice'' db_malformed = Inl ValueError
   \<and> page_exam lib_sample start_sample radio_none False ''alice'' db_malformed None
       = (Inl ValueError, db_malformed, None)"
  by (simp add: page_exam_def exam_phase_def db_malformed_def db_sample_def users_sample_def
      config_sample_def lib_sample_def select_score_def SENTINEL_def)

text \<open>
  C7. For a student who has not submitted and a schedule that parses, with a duration of
  at least 0 minutes, a clock equal to the start of the window gives \<open>IN_PROGRESS\<close> (with
  the whole duration left).
\<close>

theorem start_inclusive:
  assumes "select_score d user = SENTINEL # rest"
    and "config d ''start_time'' = Some ss" and "config d ''duration'' = Some ds"
    and "fromisoformat L ss = Some start_dt" and "int_of_str L ds = Some mins"
    and "0 \<le> mins"
    and "add_minutes start_dt mins = Inr end_dt"
    and "instant start_dt = Inr start_i"
    and "now = start_i"
  shows "exam_phase L now user d = Inr (IN_PROGRESS (real_of_int (mins * 60)))"
  using exam_phase_scheduled[OF assms(1-5,7,8), of now] assms(6,9)
  by simp

theorem start_inclusive_witness:
  "select_score db_sample ''alice'' = [SENTINEL]
   \<and> instant \<lparr>local_us = 63839700000000000, utcoffset = Some 19800000000\<rparr> = Inr start_sample
   \<and> exam_phase lib_sample start_sample ''alice'' db_sample = Inr (IN_PROGRESS 1800)"
proof -
  note s = sample_schedule
  have "exam_phase lib_sample start_sample ''alice'' db_sample
          = Inr (IN_PROGRESS (real_of_int (30 * 60)))"
    by (rule start_inclusive[OF sample_alice s[THEN conjunct1]
          s[THEN conjunct2, THEN conjunct1]
          s[THEN conjunct2, THEN conjunct2, THEN conjunct1]
          s[THEN conjunct2, THEN conjunct2, THEN conjunct2, THEN conjunct1] _
          s[THEN conjunct2, THEN conjunct2, THEN conjunct2, THEN conjunct2, THEN conjunct1]
          s[THEN conjunct2, THEN conjunct2, THEN conjunct2, THEN conjunct2, THEN conjunct2]
          refl]) simp
  then show ?thesis
    using sample_alice s by simp
qed

text \<open>
  C9. Under the same conditions a clock equal to the end of the window gives
  \<open>IN_PROGRESS\<close> with 0 seconds left; \<open>EXPIRED\<close> is reached exactly when the clock is
  strictly after the end; and up to the end an evaluation without the submit button
  writes nothing.
\<close>

theorem end_inclusive:
  assumes "select_score d user = SENTINEL # rest"
    and "config d ''start_time'' = Some ss" and "config d ''duration'' = Some ds"
    and "fromisoformat L ss = Some start_dt" and "int_of_str L ds = Some mins"
    and "0 \<le> mins"
    and "add_minutes start_dt mins = Inr end_dt"
    and "instant end_dt = Inr end_i"
  shows "(now = end_i \<longrightarrow> exam_phase L now user d = Inr (IN_PROGRESS 0))
         \<and> (exam_phase L now user d = Inr EXPIRED \<longleftrightarrow> end_i < now)
         \<and> (now \<le> end_i \<and> \<not> submit \<longrightarrow>
              fst (snd (page_exam L now radio submit user d sess)) = d)"
proof -
  obtain off where off: "utcoffset end_dt = Some off" "end_i = local_us end_dt - off"
    using assms(8) by (auto simp: instant_def split: option.splits)
  have si: "instant start_dt = Inr (end_i - mins * 60000000)"
  proof -
    have "utcoffset start_dt = Some off"
      and "local_us start_dt = local_us end_dt - mins * 60000000"
      using add_minutes_Inr[OF assms(7)] off by simp_all
    then show ?thesis
      using off by (simp add: instant_def)
  qed
  have ph: "exam_phase L now user d =
     (if now < end_i - mins * 60000000 then Inr NOT_STARTED
      else if end_i < now then Inr EXPIRED
      else Inr (IN_PROGRESS (real_of_int (end_i - now) / 1000000)))"
    using exam_phase_scheduled[OF assms(1-5,7) si, of now] by simp
  have le: "end_i - mins * 60000000 \<le> end_i"
    using assms(6) by simp
  have 1: "now = end_i \<longrightarrow> exam_phase L now user d = Inr (IN_PROGRESS 0)"
    using ph le by auto
  have 2: "exam_phase L now user d = Inr EXPIRED \<longleftrightarrow> end_i < now"
    using ph le by (auto split: if_splits)
  have 3: "now \<le> end_i \<and> \<not> submit \<longrightarrow> fst (snd (page_exam L now radio submit user d sess)) = d"
    using ph by (auto simp: page_exam_def split: if_splits prod.splits option.splits)
  from 1 2 3 show ?thesis by blast
qed

theorem end_inclusive_witness:
  "select_score db_sample ''alice'' = [SENTINEL]
   \<and> instant \<lparr>local_us = 63839701800000000, utcoffset = Some 19800000000\<rparr> = Inr end_sample
   \<and> exam_phase lib_sample end_sample ''alice'' db_sample = Inr (IN_PROGRESS 0)
   \<and> exam_phase lib_sample (end_sample + 1) ''alice'' db_sample = Inr EXPIRED
   \<and> fst (snd (page_exam lib_sample end_sample radio_none False ''alice'' db_sample None))
       = db_sample"
proof -
  note s = sample_schedule
  have i: "instant \<lparr>local_us = 63839701800000000, utcoffset = Some 19800000000\<rparr> = Inr end_sample"
    by (simp add: instant_def end_sample_def)
  have m: "(0::int) \<le> 30" by simp
  note E = end_inclusive[OF sample_alice s[THEN conjunct1]
          s[THEN conjunct2, THEN conjunct1]
          s[THEN conjunct2, THEN conjunct2, THEN conjunct1]
          s[THEN conjunct2, THEN conjunct2, THEN conjunct2, THEN conjunct1] m
          s[THEN conjunct2, THEN conjunct2, THEN conjunct2, THEN conjunct2, THEN conjunct1] i]
  have a: "exam_phase lib_sample end_sample ''alice'' db_sample = Inr (IN_PROGRESS 0)"
    using E[of end_sample] by simp
  have b: "exam_phase lib_sample (end_sample + 1) ''alice'' db_sample = Inr EXPIRED"
    using E[of "end_sample + 1"] by simp
  have c: "fst (snd (page_exam lib_sample end_sample radio_none False ''alice'' db_sample None))
       = db_sample"
    using E[of end_sample False radio_none None] by simp
  show ?thesis
    using a b c i sample_alice by simp
qed

section \<open>Submitted scores\<close>

lemma page_exam_submitted:
  assumes "select_score d user = s # rest" and "s \<noteq> SENTINEL"
  shows "page_exam L now radio submit user d sess
    = (Inr (SUBMITTED (if config d ''show_result'' = Some ''1'' then Some s else None)), d, sess)"
  using exam_phase_submitted[OF assms, of L now] by (simp add: page_exam_def)

lemma calculate_and_submit_other:
  assumes "v \<noteq> user"
  shows "select_score (snd (calculate_and_submit L d sess v)) user = select_score d user"
  using assms
  by (auto simp: calculate_and_submit_def Let_def select_score_update_other
      split: option.splits sum.splits)

lemma page_exam_other:
  assumes "v \<noteq> user"
  shows "select_score (fst (snd (page_exam L now radio submit v d sess))) user = select_score d user"
proof -
  have c: "\<And>s r d'. calculate_and_submit L d s v = (r, d')
              \<Longrightarrow> select_score d' user = select_score d user"
    using calculate_and_submit_other[OF assms, of L d] by (metis snd_conv)
  show ?thesis
    unfolding page_exam_def
    using c
    by (auto split: sum.splits phase.splits prod.splits option.splits)
qed

lemma create_account_keeps:
  assumes "select_score d user \<noteq> []"
  shows "select_score (snd (create_account L new_u new_p d)) user = select_score d user"
  using assms by (auto simp: create_account_def select_score_def)

lemma insert_rows_users:
  "users (snd (insert_rows df d)) = users d \<and> config (snd (insert_rows df d)) = config d"
proof (induction df arbitrary: d)
  case Nil
  show ?case by simp
next
  case (Cons row df)
  show ?case
    using Cons.IH by (auto simp: insert_question_def Let_def split: option.splits)
qed

lemma request_step_keeps:
  assumes "select_score d user = s # rest" and "s \<noteq> SENTINEL"
  shows "select_score (request_step L req d) user = s # rest"
proof (cases req)
  case (Create_Account new_u new_p)
  then show ?thesis
    using create_account_keeps[of d user L new_u new_p] assms by simp
next
  case (Exam_Page v now radio submit sess)
  show ?thesis
  proof (cases "v = user")
    case True
    then show ?thesis
      using Exam_Page page_exam_submitted[OF assms, of L now radio submit sess] assms by simp
  next
    case False
    then show ?thesis
      using Exam_Page page_exam_other[of v user L now radio submit d sess] assms by simp
  qed
next
  case (Save_Settings a b c e f)
  then show ?thesis
    using assms by (simp add: save_settings_def select_score_def)
next
  case (Process_CSV df)
  then show ?thesis
    using assms insert_rows_users[of df "d\<lparr>questions := []\<rparr>"]
    by (simp add: process_csv_def select_score_def)
qed

text \<open>
  C1, as the code has it. Once a student's stored score is not the sentinel, an evaluation
  of \<open>page_exam\<close> for that student stops at the submitted check and writes nothing, whatever
  the clock, the answers and the submit button; and no sequence of requests, each run as
  a whole (exam page evaluations of any user, account creation, saving settings,
  uploading questions), changes that score.
\<close>

theorem submitted_score_is_final:
  assumes "select_score d user = s # rest" and "s \<noteq> SENTINEL"
  shows "page_exam L now radio submit user d sess
           = (Inr (SUBMITTED (if config d ''show_result'' = Some ''1'' then Some s else None)),
              d, sess)
         \<and> select_score (run_requests L reqs d) user = s # rest"
proof -
  have "select_score (fold (request_step L) reqs d) user = s # rest"
    using assms(1)
  proof (induction reqs arbitrary: d)
    case Nil
    then show ?case by simp
  next
    case (Cons req reqs)
    from request_step_keeps[OF Cons.prems assms(2)]
    have "select_score (request_step L req d) user = s # rest" .
    from Cons.IH[OF this] show ?case by simp
  qed
  then show ?thesis
    using page_exam_submitted[OF assms] by (simp add: run_requests_def)
qed

theorem submitted_score_is_final_witness:
  "select_score db_sample ''bob'' = [50]
   \<and> (50::real) \<noteq> SENTINEL
   \<and> page_exam lib_sample (end_sample + 1) radio_none True ''bob'' db_sample None
       = (Inr (SUBMITTED (Some 50)), db_sample, None)
   \<and> select_score (run_requests lib_sample reqs_sample db_sample) ''bob'' = [50]"
proof -
  have n: "(50::real) \<noteq> SENTINEL"
    by (simp add: SENTINEL_def)
  have s: "config db_sample ''show_result'' = Some ''1''"
    by (simp add: db_sample_def config_sample_def)
  from submitted_score_is_final[OF sample_bob n, of lib_sample "end_sample + 1" radio_none True
      None reqs_sample]
  show ?thesis
    using sample_bob n s by simp
qed

text \<open>
  C1 as stated fails: the write of \<open>calculate_and_submit\<close> is not conditioned on the stored
  score. Called for a student whose score is 50, it stores the new result, 0.
\<close>

theorem unguarded_write_overwrites:
  "select_score db_sample ''bob'' = [50]
   \<and> (50::real) \<noteq> SENTINEL
   \<and> calculate_and_submit lib_sample db_sample None ''bob''
       = (Inr 0, update_score 0 ''bob'' db_sample)
   \<and> select_score (update_score 0 ''bob'' db_sample) ''bob'' = [0]"
  by (simp add: calculate_and_submit_def lib_sample_def db_sample_def config_sample_def
      final_percent_def py_truediv_def Let_def q1_def q2_def dict_get_def select_score_def
      update_score_def users_sample_def SENTINEL_def)

section \<open>Uploading questions\<close>

lemma fold_max_recorded:
  "list_all (\<lambda>x. x \<le> (a::int)) xs \<Longrightarrow> fold max xs a = a"
  by (induction xs) (auto simp: max_def)

lemma next_id:
  assumes "ids_recorded d"
  shows "fold max (map qid (questions d)) (questions_seq d) = questions_seq d"
  using assms by (intro fold_max_recorded) (simp add: ids_recorded_def list_all_iff)

lemma insert_question_recorded:
  assumes "ids_recorded d"
  shows "ids_recorded (insert_question qu o1 o2 o3 o4 co d)
         \<and> questions_seq (insert_question qu o1 o2 o3 o4 co d) = questions_seq d + 1
         \<and> questions (insert_question qu o1 o2 o3 o4 co d)
             = questions d @ [\<lparr>qid = questions_seq d + 1, question = qu, opt1 = o1, opt2 = o2,
                                opt3 = o3, opt4 = o4, correct_opt = co\<rparr>]"
  using assms next_id[OF assms]
  by (auto simp: insert_question_def Let_def ids_recorded_def list_all_iff)

lemma insert_rows_appends:
  assumes "ids_recorded d" and "insert_rows df d = (r, d')"
  shows "\<exists>new. questions d' = questions d @ new
           \<and> list_all2 row_matches new (take (length new) df)
           \<and> length new \<le> length df
           \<and> map qid new = map (\<lambda>k. questions_seq d + 1 + int k) [0..<length new]
           \<and> questions_seq d' = questions_seq d + int (length new)
           \<and> ids_recorded d'
           \<and> (r = None \<longrightarrow> length new = length df)
           \<and> (r \<noteq> None \<longrightarrow> r = Some KeyError \<and> length new < length df)"
  using assms
proof (induction df arbitrary: d)
  case Nil
  then show ?case by auto
next
  case (Cons row df)
  show ?case
  proof (cases "\<exists>qu o1 o2 o3 o4 co. row ''question'' = Some qu \<and> row ''opt1'' = Some o1
      \<and> row ''opt2'' = Some o2 \<and> row ''opt3'' = Some o3 \<and> row ''opt4'' = Some o4
      \<and> row ''correct_opt'' = Some co")
    case False
    then have "insert_rows (row # df) d = (Some KeyError, d)"
      by (auto split: option.splits)
    with Cons.prems show ?thesis by auto
  next
    case True
    then obtain qu o1 o2 o3 o4 co where row: "row ''question'' = Some qu" "row ''opt1'' = Some o1"
      "row ''opt2'' = Some o2" "row ''opt3'' = Some o3" "row ''opt4'' = Some o4"
      "row ''correct_opt'' = Some co"
      by blast
    define q where "q = \<lparr>qid = questions_seq d + 1, question = qu, opt1 = o1, opt2 = o2,
                                opt3 = o3, opt4 = o4, correct_opt = co\<rparr>"
    define d1 where "d1 = insert_question qu o1 o2 o3 o4 co d"
    have d1: "ids_recorded d1" "questions_seq d1 = questions_seq d + 1"
      "questions d1 = questions d @ [q]"
      using insert_question_recorded[OF Cons.prems(1), of qu o1 o2 o3 o4 co]
      by (simp_all add: d1_def q_def)
    have run: "insert_rows df d1 = (r, d')"
      using Cons.prems(2) row by (simp add: d1_def)
    from Cons.IH[OF d1(1) run] obtain new where new:
      "questions d' = questions d1 @ new"
      "list_all2 row_matches new (take (length new) df)"
      "length new \<le> length df"
      "map qid new = map (\<lambda>k. questions_seq d1 + 1 + int k) [0..<length new]"
      "questions_seq d' = questions_seq d1 + int (length new)"
      "ids_recorded d'"
      "r = None \<longrightarrow> length new = length df"
      "r \<noteq> None \<longrightarrow> r = Some KeyError \<and> length new < length df"
      by blast
    have m: "row_matches q row"
      using row by (simp add: row_matches_def q_def)
    have ids: "map qid (q # new) = map (\<lambda>k. questions_seq d + 1 + int k) [0..<length (q # new)]"
      using new(4) d1(2) by (simp add: q_def map_upt_Suc del: upt_Suc)
    show ?thesis
      apply (rule exI[of _ "q # new"])
      using new d1 m ids by auto
  qed
qed

text \<open>
  C8, as the code has it. "Process CSV" deletes the old set and then inserts the rows of
  the file one by one. Users and configuration are untouched; afterwards the bank holds
  no question of the old set, only the leading rows of the file, in order, under fresh
  consecutive ids: all of them when the run succeeds, and when a row lacks a column the
  run stops with \<open>KeyError\<close> and the bank holds only the rows before it.
\<close>

theorem process_csv_replaces:
  assumes "ids_recorded d" and "process_csv df d = (r, d')"
  shows "users d' = users d \<and> config d' = config d
     \<and> set (questions d') \<inter> set (questions d) = {}
     \<and> list_all2 row_matches (questions d') (take (length (questions d')) df)
     \<and> map qid (questions d') = map (\<lambda>k. questions_seq d + 1 + int k) [0..<length (questions d')]
     \<and> ids_recorded d'
     \<and> (r = None \<longrightarrow> length (questions d') = length df)
     \<and> (r \<noteq> None \<longrightarrow> r = Some KeyError \<and> length (questions d') < length df)"
proof -
  let ?d0 = "d\<lparr>questions := []\<rparr>"
  have r0: "ids_recorded ?d0"
    by (simp add: ids_recorded_def)
  have run: "insert_rows df ?d0 = (r, d')"
    using assms(2) by (simp add: process_csv_def)
  from insert_rows_appends[OF r0 run] obtain new where new:
    "questions d' = new"
    "list_all2 row_matches new (take (length new) df)"
    "map qid new = map (\<lambda>k. questions_seq d + 1 + int k) [0..<length new]"
    "ids_recorded d'"
    "r = None \<longrightarrow> length new = length df"
    "r \<noteq> None \<longrightarrow> r = Some KeyError \<and> length new < length df"
    by auto
  have uc: "users d' = users d \<and> config d' = config d"
    using insert_rows_users[of df ?d0] run by simp
  have fresh: "questions_seq d < qid q" if "q \<in> set new" for q
  proof -
    from that have "qid q \<in> set (map qid new)" by simp
    then have "qid q \<in> set (map (\<lambda>k. questions_seq d + 1 + int k) [0..<length new])"
      using new(3) by simp
    then show ?thesis by auto
  qed
  have old: "qid q \<le> questions_seq d" if "q \<in> set (questions d)" for q
    using assms(1) that by (simp add: ids_recorded_def list_all_iff)
  have disj: "set (questions d') \<inter> set (questions d) = {}"
    using fresh old new(1) by fastforce
  show ?thesis
    using uc disj new by simp
qed

theorem process_csv_replaces_witness:
  "ids_recorded db_sample
   \<and> process_csv df_sample db_sample = (None, db_sample\<lparr>questions := [q3], questions_seq := 3\<rparr>)
   \<and> questions db_sample = [q1, q2]
   \<and> set [q3] \<inter> set (questions db_sample) = {}
   \<and> length [q3] = length df_sample"
proof -
  have a: "ids_recorded db_sample"
    by (simp add: ids_recorded_def db_sample_def q1_def q2_def)
  have b: "process_csv df_sample db_sample
            = (None, db_sample\<lparr>questions := [q3], questions_seq := 3\<rparr>)"
    by (simp add: process_csv_def df_sample_def insert_question_def db_sample_def q3_def Let_def)
  from process_csv_replaces[OF a b]
  have "set [q3] \<inter> set (questions db_sample) = {}" and "length [q3] = length df_sample"
    by simp_all
  then show ?thesis
    using a b by (simp add: db_sample_def)
qed

text \<open>
  C8 as stated fails: the replacement is not a single batch. A file without the
  \<open>correct_opt\<close> column deletes the two stored questions and inserts nothing.
\<close>

theorem failed_upload_empties_bank:
  "questions db_sample = [q1, q2]
   \<and> process_csv df_no_correct db_sample = (Some KeyError, db_sample\<lparr>questions := []\<rparr>)
   \<and> questions (db_sample\<lparr>questions := []\<rparr>) = []"
  by (simp add: process_csv_def df_no_correct_def db_sample_def)

section \<open>Creating accounts\<close>

text \<open>
  C10. "Create Account" with a username that is already in \<open>users\<close> reports "User exists"
  and leaves the database as it was; with a new username it succeeds and appends one
  row, with role \<open>student\<close> and the sentinel score, leaving everything else as it was.
\<close>

theorem create_account_result:
  assumes "create_account L new_u new_p d = (r, d')"
  shows "(new_u \<in> set (map username (users d)) \<longrightarrow> r = Error ''User exists'' \<and> d' = d)
     \<and> (new_u \<notin> set (map username (users d)) \<longrightarrow>
          r = Success ''Account created! Please Login.''
          \<and> users d' = users d @ [\<lparr>username = new_u, password = make_hashes L new_p,
                                    role = ''student'', score = SENTINEL\<rparr>]
          \<and> config d' = config d \<and> questions d' = questions d
          \<and> questions_seq d' = questions_seq d
          \<and> select_score d' new_u = [SENTINEL])"
proof (cases "new_u \<in> set (map username (users d))")
  case True
  then have "filter (\<lambda>u. username u = new_u) (users d) \<noteq> []"
    by (auto simp: filter_empty_conv)
  then have "create_account L new_u new_p d = (Error ''User exists'', d)"
    by (simp add: create_account_def)
  with assms True show ?thesis by simp
next
  case False
  then have f: "filter (\<lambda>u. username u = new_u) (users d) = []"
    by (auto simp: filter_empty_conv)
  then have "create_account L new_u new_p d
      = (Success ''Account created! Please Login.'',
         d\<lparr>users := users d @ [\<lparr>username = new_u, password = make_hashes L new_p,
                                 role = ''student'', score = - 999\<rparr>]\<rparr>)"
    by (simp add: create_account_def)
  with assms False f show ?thesis
    by (auto simp: SENTINEL_def select_score_def)
qed

theorem create_account_result_witness:
  "create_account lib_sample ''alice'' ''pw'' db_sample = (Error ''User exists'', db_sample)
   \<and> create_account lib_sample ''carol'' ''pw'' db_sample
       = (Success ''Account created! Please Login.'', db_carol)
   \<and> select_score db_carol ''carol'' = [SENTINEL]"
proof -
  have a: "''alice'' \<in> set (map username (users db_sample))"
    by (simp add: db_sample_def users_sample_def)
  have c: "''carol'' \<notin> set (map username (users db_sample))"
    by (simp add: db_sample_def users_sample_def)
  obtain r d' where 1: "create_account lib_sample ''alice'' ''pw'' db_sample = (r, d')"
    by (cases "create_account lib_sample ''alice'' ''pw'' db_sample")
  have 2: "create_account lib_sample ''carol'' ''pw'' db_sample
       = (Success ''Account created! Please Login.'', db_carol)"
    by (simp add: create_account_def db_sample_def users_sample_def lib_sample_def db_carol_def)
  from create_account_result[OF 1] a have "r = Error ''User exists'' \<and> d' = db_sample"
    by blast
  with 1 have x: "create_account lib_sample ''alice'' ''pw'' db_sample
      = (Error ''User exists'', db_sample)"
    by simp
  from create_account_result[OF 2] c have y: "select_score db_carol ''carol'' = [SENTINEL]"
    by blast
  show ?thesis
    using x 2 y by blast
qed

end
